theory Spec2Isabelle
  imports Complex_Main "HOL-Library.Product_Lexorder" "HOL-Library.Multiset"
begin

section \<open>Conventions of the embedding\<close>

text \<open>
  The script \<^verbatim>\<open>3D_RVE_Model.py\<close> runs under the Python 2.7 interpreter built into
  ABAQUS.  Its geometric core is embedded here function by function.

  \<^item> A Python \<^verbatim>\<open>float\<close> is a \<^typ>\<open>real\<close>: arithmetic is exact, there is no rounding, no
    overflow and no NaN.  \<^verbatim>\<open>float('inf')\<close> as the start value of a running minimum is
    \<^term>\<open>None\<close> of an option.
  \<^item> A fibre centre \<^verbatim>\<open>(x, y)\<close> (or the inner list \<^verbatim>\<open>[x, y]\<close>) is a pair; the lists
    \<^verbatim>\<open>coords = [list(c) for c in coords_in]\<close> are fresh copies, so no two entries share
    storage and a list of pairs updated by index models them.
  \<^item> \<^verbatim>\<open>rveSize = [width, height, depth]\<close> is a triple.
  \<^item> An exception is the \<^term>\<open>Inl\<close> summand of the result.
  \<^item> \<^verbatim>\<open>range(n)\<close> for an \<^verbatim>\<open>int\<close> \<^verbatim>\<open>n\<close> runs \<^term>\<open>nat n\<close> times (not at all when
    \<^verbatim>\<open>n\<close> is negative).
\<close>

datatype error =
    IndexError
  | ZeroDivisionError
  | FatalMinDistance nat real real nat nat
  | CellCountAnomaly nat nat
  | NoCellCenter nat real

type_synonym point = "real \<times> real"
type_synonym rveSize = "real \<times> real \<times> real"

definition rve0 :: "rveSize \<Rightarrow> real" where
  "rve0 sz = fst sz"

definition rve1 :: "rveSize \<Rightarrow> real" where
  "rve1 sz = fst (snd sz)"

definition rve2 :: "rveSize \<Rightarrow> real" where
  "rve2 sz = snd (snd sz)"

text \<open>Python's \<^verbatim>\<open>x % m\<close> on floats: the result takes the sign of \<^verbatim>\<open>m\<close>; a zero
  modulus raises.\<close>

definition py_mod :: "real \<Rightarrow> real \<Rightarrow> error + real" where
  "py_mod x m = (if m = 0 then Inl ZeroDivisionError
                 else Inr (x - m * of_int \<lfloor>x / m\<rfloor>))"

text \<open>Python's \<^verbatim>\<open>a / b\<close> on floats.\<close>

definition py_div :: "real \<Rightarrow> real \<Rightarrow> error + real" where
  "py_div a b = (if b = 0 then Inl ZeroDivisionError else Inr (a / b))"

text \<open>Sequencing of steps that may raise: the first exception ends the run.\<close>

definition bind_err :: "error + 'a \<Rightarrow> ('a \<Rightarrow> error + 'b) \<Rightarrow> error + 'b" where
  "bind_err r f = (case r of Inl e \<Rightarrow> Inl e | Inr v \<Rightarrow> f v)"

text \<open>\<^verbatim>\<open>coords[k][0] += mx; coords[k][1] += my\<close> (a subtraction adds the negated
  amount).\<close>

definition shift_point :: "point list \<Rightarrow> nat \<Rightarrow> real \<Rightarrow> real \<Rightarrow> error + point list" where
  "shift_point coords k mx my =
     (if k < length coords
      then Inr (coords[k := (fst (coords ! k) + mx, snd (coords ! k) + my)])
      else Inl IndexError)"

text \<open>\<^verbatim>\<open>coords[k][0] %= rveSize[0]; coords[k][1] %= rveSize[1]\<close>.\<close>

definition wrap_point :: "point list \<Rightarrow> rveSize \<Rightarrow> nat \<Rightarrow> error + point list" where
  "wrap_point coords sz k =
     (if k < length coords
      then bind_err (py_mod (fst (coords ! k)) (rve0 sz)) (\<lambda>x.
           bind_err (py_mod (snd (coords ! k)) (rve1 sz)) (\<lambda>y.
             Inr (coords[k := (x, y)])))
      else Inl IndexError)"

section \<open>Periodic pair geometry shared by the Relaxer and the Corrector\<close>

text \<open>
  \<^verbatim>\<open>if dx > rveSize[0] / 2: dx -= rveSize[0]\<close> followed by
  \<^verbatim>\<open>if dx < -rveSize[0] / 2: dx += rveSize[0]\<close>: the two tests run one after the other,
  the second on the value the first left.
\<close>

definition wrap_delta :: "real \<Rightarrow> real \<Rightarrow> real" where
  "wrap_delta d L =
     (let d1 = (if d > L / 2 then d - L else d)
      in if d1 < - L / 2 then d1 + L else d1)"

text \<open>The reads \<^verbatim>\<open>coords[j]\<close>, \<^verbatim>\<open>coords[i]\<close> of a pair and its wrapped difference
  \<^verbatim>\<open>(dx, dy)\<close>.\<close>

definition pair_delta :: "point list \<Rightarrow> rveSize \<Rightarrow> nat \<Rightarrow> nat \<Rightarrow> error + (real \<times> real)" where
  "pair_delta coords sz i j =
     (if j < length coords \<and> i < length coords
      then Inr (wrap_delta (fst (coords ! j) - fst (coords ! i)) (rve0 sz),
                wrap_delta (snd (coords ! j) - snd (coords ! i)) (rve1 sz))
      else Inl IndexError)"

text \<open>\<^verbatim>\<open>for i in range(n): for j in range(i + 1, n)\<close>, in the order of the loops.\<close>

definition index_pairs :: "nat \<Rightarrow> (nat \<times> nat) list" where
  "index_pairs n = concat (map (\<lambda>i. map (\<lambda>j. (i, j)) [Suc i ..< n]) [0 ..< n])"

text \<open>\<^verbatim>\<open>math.sqrt(d) if d > 0 else 1e-9\<close>.\<close>

definition safe_dist :: "real \<Rightarrow> real" where
  "safe_dist dsq = (if dsq > 0 then sqrt dsq else 1 / 10 ^ 9)"

section \<open>The Corrector: \<^verbatim>\<open>_final_check_and_enforce\<close>\<close>

text \<open>
  The scan keeps \<^verbatim>\<open>min_dist_sq_found\<close> and \<^verbatim>\<open>worst_offenders = (i, j, dx, dy)\<close>; both
  are assigned together, so one option holds them: \<^term>\<open>None\<close> is the start state
  \<^verbatim>\<open>(float('inf'), None)\<close>.
\<close>

type_synonym worst = "(real \<times> nat \<times> nat \<times> real \<times> real) option"

definition below_found :: "real \<Rightarrow> worst \<Rightarrow> bool" where
  "below_found dsq w = (case w of None \<Rightarrow> True | Some (m, _) \<Rightarrow> dsq < m)"

fun find_worst :: "point list \<Rightarrow> rveSize \<Rightarrow> (nat \<times> nat) list \<Rightarrow> worst \<Rightarrow> error + worst" where
  "find_worst coords sz [] w = Inr w"
| "find_worst coords sz ((i, j) # ps) w =
     (case pair_delta coords sz i j of
        Inl e \<Rightarrow> Inl e
      | Inr (dx, dy) \<Rightarrow>
          (let dist_sq = dx * dx + dy * dy
           in find_worst coords sz ps
                (if below_found dist_sq w then Some (dist_sq, i, j, dx, dy) else w)))"

text \<open>\<^verbatim>\<open>min_dist_sq_found >= min_dist_sq\<close>, where the left side may still be infinite.\<close>

definition found_ge :: "worst \<Rightarrow> real \<Rightarrow> bool" where
  "found_ge w min_dist_sq = (case w of None \<Rightarrow> True | Some (m, _) \<Rightarrow> m \<ge> min_dist_sq)"

text \<open>
  The body of \<^verbatim>\<open>if worst_offenders:\<close>: the four in-place subtractions and
  additions, then the four in-place \<^verbatim>\<open>%=\<close>, in the order of the source.
\<close>

definition push_apart ::
  "point list \<Rightarrow> rveSize \<Rightarrow> real \<Rightarrow> real \<times> nat \<times> nat \<times> real \<times> real \<Rightarrow> error + point list" where
  "push_apart coords sz minDistance wo =
     (case wo of (found, i, j, dx, dy) \<Rightarrow>
        (let dist = safe_dist found;
             overlap = minDistance - dist;
             move_dist = overlap / 2 + 1 / 10 ^ 8
         in bind_err (py_div dx dist) (\<lambda>ux.
            bind_err (py_div dy dist) (\<lambda>uy.
              (let move_x = move_dist * ux; move_y = move_dist * uy
               in bind_err (shift_point coords i (- move_x) (- move_y)) (\<lambda>c1.
                  bind_err (shift_point c1 j move_x move_y) (\<lambda>c2.
                  bind_err (wrap_point c2 sz i) (\<lambda>c3.
                  wrap_point c3 sz j))))))))"

text \<open>One pass of the \<^verbatim>\<open>for iter_num\<close> loop: either the check passes and the function
  returns the list, or the loop goes on with the list as the pass left it.\<close>

datatype iter_result = Passed "point list" | Continue "point list"

definition correction_iter ::
  "point list \<Rightarrow> nat \<Rightarrow> rveSize \<Rightarrow> real \<Rightarrow> error + iter_result" where
  "correction_iter coords n sz minDistance =
     (case find_worst coords sz (index_pairs n) None of
        Inl e \<Rightarrow> Inl e
      | Inr w \<Rightarrow>
          if found_ge w (minDistance ^ 2) then Inr (Passed coords)
          else (case w of
                  None \<Rightarrow> Inr (Continue coords)
                | Some wo \<Rightarrow>
                    (case push_apart coords sz minDistance wo of
                       Inl e \<Rightarrow> Inl e
                     | Inr coords' \<Rightarrow> Inr (Continue coords'))))"

text \<open>The last scan after the loop: the smallest squared distance, the number of
  violating pairs and the fibres they involve.\<close>

fun final_scan ::
  "point list \<Rightarrow> rveSize \<Rightarrow> real \<Rightarrow> (nat \<times> nat) list \<Rightarrow> real option \<times> nat \<times> nat list
     \<Rightarrow> error + (real option \<times> nat \<times> nat list)" where
  "final_scan coords sz min_dist_sq [] st = Inr st"
| "final_scan coords sz min_dist_sq ((i, j) # ps) (fm, vp, vf) =
     (case pair_delta coords sz i j of
        Inl e \<Rightarrow> Inl e
      | Inr (dx, dy) \<Rightarrow>
          (let dist_sq = dx * dx + dy * dy;
               fm' = (if (case fm of None \<Rightarrow> True | Some m \<Rightarrow> dist_sq < m)
                      then Some dist_sq else fm)
           in if dist_sq < min_dist_sq
              then final_scan coords sz min_dist_sq ps
                     (fm', vp + 1, List.insert j (List.insert i vf))
              else final_scan coords sz min_dist_sq ps (fm', vp, vf)))"

definition final_verdict ::
  "nat \<Rightarrow> point list \<Rightarrow> nat \<Rightarrow> rveSize \<Rightarrow> real \<Rightarrow> error + point list" where
  "final_verdict max_iter coords n sz minDistance =
     (case final_scan coords sz (minDistance ^ 2) (index_pairs n) (None, 0, []) of
        Inl e \<Rightarrow> Inl e
      | Inr (fm, vp, vf) \<Rightarrow>
          (case fm of
             None \<Rightarrow> Inr coords
           | Some m \<Rightarrow>
               if m < minDistance ^ 2
               then Inl (FatalMinDistance max_iter (sqrt m) minDistance vp (length vf))
               else Inr coords))"

text \<open>The loop with \<^term>\<open>k\<close> passes left, followed by the last scan.\<close>

fun enforce_loop ::
  "nat \<Rightarrow> nat \<Rightarrow> point list \<Rightarrow> nat \<Rightarrow> rveSize \<Rightarrow> real \<Rightarrow> error + point list" where
  "enforce_loop max_iter 0 coords n sz minDistance =
     final_verdict max_iter coords n sz minDistance"
| "enforce_loop max_iter (Suc k) coords n sz minDistance =
     (case correction_iter coords n sz minDistance of
        Inl e \<Rightarrow> Inl e
      | Inr (Passed c) \<Rightarrow> Inr c
      | Inr (Continue c) \<Rightarrow> enforce_loop max_iter k c n sz minDistance)"

definition max_correction_iter :: nat where
  "max_correction_iter = 50000"

definition final_check_and_enforce ::
  "point list \<Rightarrow> int \<Rightarrow> rveSize \<Rightarrow> real \<Rightarrow> error + point list" where
  "final_check_and_enforce coords_in fiberCount sz minDistance =
     enforce_loop max_correction_iter max_correction_iter coords_in (nat fiberCount) sz minDistance"


section \<open>The Relaxer: \<^verbatim>\<open>_relax_coords_anchored\<close>\<close>

text \<open>
  The repulsive force of one overlapping pair, from its wrapped difference and squared
  distance: \<^verbatim>\<open>dist\<close>, \<^verbatim>\<open>overlap\<close>, \<^verbatim>\<open>force_magnitude\<close>, \<^verbatim>\<open>force_x\<close> and
  \<^verbatim>\<open>force_y\<close>.
\<close>

definition pair_force :: "real \<Rightarrow> real \<Rightarrow> real \<Rightarrow> real \<Rightarrow> error + (real \<times> real)" where
  "pair_force minDistance dist_sq dx dy =
     (let dist = safe_dist dist_sq;
          overlap = minDistance - dist;
          force_magnitude = overlap
      in bind_err (py_div dx dist) (\<lambda>ux.
         bind_err (py_div dy dist) (\<lambda>uy.
           Inr (force_magnitude * ux, force_magnitude * uy))))"

text \<open>
  The double loop over the pairs of one pass.  \<^verbatim>\<open>net_forces\<close> is a list of
  \<^verbatim>\<open>fiberCount\<close> two-element lists, updated in place like the coordinates; the
  force on \<open>i\<close> is decreased and the force on \<open>j\<close> increased.
\<close>

fun accumulate_forces ::
  "point list \<Rightarrow> rveSize \<Rightarrow> real \<Rightarrow> (nat \<times> nat) list \<Rightarrow> (real \<times> real) list
     \<Rightarrow> error + (real \<times> real) list" where
  "accumulate_forces coords sz minDistance [] net_forces = Inr net_forces"
| "accumulate_forces coords sz minDistance ((i, j) # ps) net_forces =
     (case pair_delta coords sz i j of
        Inl e \<Rightarrow> Inl e
      | Inr (dx, dy) \<Rightarrow>
          (let dist_sq = dx * dx + dy * dy
           in if dist_sq < minDistance ^ 2
              then (case bind_err (pair_force minDistance dist_sq dx dy) (\<lambda>(force_x, force_y).
                           bind_err (shift_point net_forces i (- force_x) (- force_y))
                             (\<lambda>nf. shift_point nf j force_x force_y))
                    of Inl e \<Rightarrow> Inl e
                     | Inr nf \<Rightarrow> accumulate_forces coords sz minDistance ps nf)
              else accumulate_forces coords sz minDistance ps net_forces))"

text \<open>\<^verbatim>\<open>any(any(f) for f in net_forces)\<close>: a float is truthy when it is not zero.\<close>

definition any_force :: "(real \<times> real) list \<Rightarrow> bool" where
  "any_force net_forces = list_ex (\<lambda>f. fst f \<noteq> 0 \<or> snd f \<noteq> 0) net_forces"

text \<open>
  The displacement of point \<open>i\<close> in the second loop of a pass:
  \<^verbatim>\<open>movement_factor = 0.5\<close>, and \<^verbatim>\<open>anchor_damping_factor = 0.05\<close> for the indices
  below \<^verbatim>\<open>seeding_count\<close>.
\<close>

definition point_move :: "(real \<times> real) list \<Rightarrow> int \<Rightarrow> nat \<Rightarrow> real \<times> real" where
  "point_move net_forces seeding_count i =
     (let move_x = fst (net_forces ! i) * (5 / 10);
          move_y = snd (net_forces ! i) * (5 / 10)
      in if int i < seeding_count
         then (move_x * (5 / 100), move_y * (5 / 100))
         else (move_x, move_y))"

text \<open>
  The second loop of a pass, \<^verbatim>\<open>for i in range(fiberCount)\<close>, with the coordinates and
  \<^verbatim>\<open>max_movement_sq\<close> as the state.
\<close>

fun move_points ::
  "nat list \<Rightarrow> (real \<times> real) list \<Rightarrow> int \<Rightarrow> rveSize \<Rightarrow> point list \<times> real
     \<Rightarrow> error + (point list \<times> real)" where
  "move_points [] net_forces seeding_count sz st = Inr st"
| "move_points (i # rest) net_forces seeding_count sz (coords, max_movement_sq) =
     (if \<not> i < length net_forces then Inl IndexError
      else (case point_move net_forces seeding_count i of (move_x, move_y) \<Rightarrow>
              (case bind_err (shift_point coords i move_x move_y) (\<lambda>c. wrap_point c sz i) of
                 Inl e \<Rightarrow> Inl e
               | Inr c \<Rightarrow>
                   (let current_movement_sq = move_x ^ 2 + move_y ^ 2
                    in move_points rest net_forces seeding_count sz
                         (c, if current_movement_sq > max_movement_sq
                             then current_movement_sq else max_movement_sq)))))"

text \<open>One pass of \<^verbatim>\<open>for iter_num in range(max_iterations)\<close>: the function returns from
  inside the loop on the first two outcomes and goes on with the third.\<close>

datatype relax_step = Stable "point list" | Converged "point list" | Moved "point list"

definition relax_iter ::
  "point list \<Rightarrow> int \<Rightarrow> nat \<Rightarrow> rveSize \<Rightarrow> real \<Rightarrow> real \<Rightarrow> error + relax_step" where
  "relax_iter coords seeding_count n sz fiberRadius minDistance =
     bind_err (accumulate_forces coords sz minDistance (index_pairs n) (replicate n (0, 0)))
       (\<lambda>net_forces.
          if \<not> any_force net_forces then Inr (Stable coords)
          else bind_err (move_points [0 ..< n] net_forces seeding_count sz (coords, 0))
                 (\<lambda>(c, max_movement_sq).
                    if max_movement_sq < (1 / 10 ^ 6 * fiberRadius) ^ 2
                    then Inr (Converged c) else Inr (Moved c)))"

text \<open>
  The loop with \<open>k\<close> passes left.  Next to the coordinates the model returns the number
  of passes that were begun, which the source only prints.
\<close>

fun relax_loop ::
  "nat \<Rightarrow> nat \<Rightarrow> point list \<Rightarrow> int \<Rightarrow> nat \<Rightarrow> rveSize \<Rightarrow> real \<Rightarrow> real
     \<Rightarrow> error + (point list \<times> nat)" where
  "relax_loop 0 passes coords seeding_count n sz fiberRadius minDistance = Inr (coords, passes)"
| "relax_loop (Suc k) passes coords seeding_count n sz fiberRadius minDistance =
     (case relax_iter coords seeding_count n sz fiberRadius minDistance of
        Inl e \<Rightarrow> Inl e
      | Inr (Stable c) \<Rightarrow> Inr (c, Suc passes)
      | Inr (Converged c) \<Rightarrow> Inr (c, Suc passes)
      | Inr (Moved c) \<Rightarrow> relax_loop k (Suc passes) c seeding_count n sz fiberRadius minDistance)"

definition max_iterations :: nat where
  "max_iterations = 2000"

definition relax_run ::
  "point list \<Rightarrow> int \<Rightarrow> int \<Rightarrow> rveSize \<Rightarrow> real \<Rightarrow> real \<Rightarrow> error + (point list \<times> nat)" where
  "relax_run initial_coords seeding_count fiberCount sz fiberRadius minDistance =
     relax_loop max_iterations 0 initial_coords seeding_count (nat fiberCount) sz
       fiberRadius minDistance"

definition relax_coords_anchored ::
  "point list \<Rightarrow> int \<Rightarrow> int \<Rightarrow> rveSize \<Rightarrow> real \<Rightarrow> real \<Rightarrow> error + point list" where
  "relax_coords_anchored initial_coords seeding_count fiberCount sz fiberRadius minDistance =
     bind_err (relax_run initial_coords seeding_count fiberCount sz fiberRadius minDistance)
       (\<lambda>(coords, passes). Inr coords)"

section \<open>Predicates used in the statements and proofs about the Corrector\<close>



section \<open>The Mirror Builder: \<^verbatim>\<open>buildAllFiberCenters3D\<close>\<close>

text \<open>
  The body of \<^verbatim>\<open>for xt, yt in fiber_centers\<close>: the images appended for one centre, in
  the order of the source.  The four single-edge tests come first, then the four corners
  (lower left, upper left, upper right, lower right), each with its inner test of the
  distance to the corner vertex.
\<close>

definition fiber_images :: "rveSize \<Rightarrow> real \<Rightarrow> point \<Rightarrow> point list" where
  "fiber_images sz fiberRadius p =
     (case p of (xt, yt) \<Rightarrow>
        [(xt, yt)]
        @ (if xt < fiberRadius then [(xt + rve0 sz, yt)] else [])
        @ (if xt > rve0 sz - fiberRadius then [(xt - rve0 sz, yt)] else [])
        @ (if yt < fiberRadius then [(xt, yt + rve1 sz)] else [])
        @ (if yt > rve1 sz - fiberRadius then [(xt, yt - rve1 sz)] else [])
        @ (if xt < fiberRadius \<and> yt < fiberRadius
           then (if sqrt (xt ^ 2 + yt ^ 2) < fiberRadius
                 then [(xt + rve0 sz, yt + rve1 sz)] else [])
           else [])
        @ (if xt < fiberRadius \<and> yt > rve1 sz - fiberRadius
           then (if sqrt (xt ^ 2 + (rve1 sz - yt) ^ 2) < fiberRadius
                 then [(xt + rve0 sz, yt - rve1 sz)] else [])
           else [])
        @ (if xt > rve0 sz - fiberRadius \<and> yt > rve1 sz - fiberRadius
           then (if sqrt ((rve0 sz - xt) ^ 2 + (rve1 sz - yt) ^ 2) < fiberRadius
                 then [(xt - rve0 sz, yt - rve1 sz)] else [])
           else [])
        @ (if xt > rve0 sz - fiberRadius \<and> yt < fiberRadius
           then (if sqrt ((rve0 sz - xt) ^ 2 + yt ^ 2) < fiberRadius
                 then [(xt - rve0 sz, yt + rve1 sz)] else [])
           else []))"

text \<open>The test of the inner loop of the de-duplication, with \<^verbatim>\<open>tolerance = 1e-6\<close>.\<close>

definition near_dup :: "point \<Rightarrow> point \<Rightarrow> bool" where
  "near_dup center existing =
     (\<bar>fst center - fst existing\<bar> < 1 / 10 ^ 6 \<and> \<bar>snd center - snd existing\<bar> < 1 / 10 ^ 6)"

text \<open>\<^verbatim>\<open>for center in all_fiber_centers\<close>, with \<^verbatim>\<open>unique_centers\<close> as the accumulator.\<close>

fun unique_centers :: "point list \<Rightarrow> point list \<Rightarrow> point list" where
  "unique_centers [] unique = unique"
| "unique_centers (center # rest) unique =
     unique_centers rest
       (if list_ex (near_dup center) unique then unique else unique @ [center])"

definition buildAllFiberCenters3D :: "point list \<Rightarrow> rveSize \<Rightarrow> real \<Rightarrow> point list" where
  "buildAllFiberCenters3D fiber_centers sz fiberRadius =
     unique_centers (concat (map (fiber_images sz fiberRadius) fiber_centers)) []"

section \<open>The inline mirror generation of \<^verbatim>\<open>create3DRVEModel\<close>, step 2\<close>

text \<open>
  \<^verbatim>\<open>points_to_add\<close> for one centre.  The corner images are appended on the two edge
  tests alone (upper left, lower left, upper right, lower right).
\<close>

definition points_to_add :: "rveSize \<Rightarrow> real \<Rightarrow> point \<Rightarrow> point list" where
  "points_to_add sz fiberRadius p =
     (case p of (xt, yt) \<Rightarrow>
        [(xt, yt)]
        @ (if xt < fiberRadius then [(xt + rve0 sz, yt)] else [])
        @ (if xt > rve0 sz - fiberRadius then [(xt - rve0 sz, yt)] else [])
        @ (if yt < fiberRadius then [(xt, yt + rve1 sz)] else [])
        @ (if yt > rve1 sz - fiberRadius then [(xt, yt - rve1 sz)] else [])
        @ (if xt < fiberRadius \<and> yt > rve1 sz - fiberRadius
           then [(xt + rve0 sz, yt - rve1 sz)] else [])
        @ (if xt < fiberRadius \<and> yt < fiberRadius
           then [(xt + rve0 sz, yt + rve1 sz)] else [])
        @ (if xt > rve0 sz - fiberRadius \<and> yt > rve1 sz - fiberRadius
           then [(xt - rve0 sz, yt - rve1 sz)] else [])
        @ (if xt > rve0 sz - fiberRadius \<and> yt < fiberRadius
           then [(xt - rve0 sz, yt + rve1 sz)] else []))"

text \<open>
  \<^verbatim>\<open>unique_points = sorted(list(set(points_to_add)))\<close> per centre, appended to
  \<^verbatim>\<open>xCoords\<close> and \<^verbatim>\<open>yCoords\<close>; the two lists are filled in step and are kept here as
  one list of pairs.  Tuples are compared lexicographically, as pairs are in
  the lexicographic order of \<^verbatim>\<open>Product_Lexorder\<close>.
\<close>

definition mirror_coords :: "point list \<Rightarrow> rveSize \<Rightarrow> real \<Rightarrow> point list" where
  "mirror_coords fiber_centers sz fiberRadius =
     concat (map (\<lambda>p. sort (remdups (points_to_add sz fiberRadius p))) fiber_centers)"

section \<open>Predicates used in the statements about the mirror builders\<close>

text \<open>A centre that is within the radius of both edges of a corner is also within the
  radius of the corner vertex.\<close>

definition corner_close :: "rveSize \<Rightarrow> real \<Rightarrow> point \<Rightarrow> bool" where
  "corner_close sz r p =
     (case p of (xt, yt) \<Rightarrow>
        (xt < r \<and> yt < r \<longrightarrow> sqrt (xt ^ 2 + yt ^ 2) < r)
      \<and> (xt < r \<and> yt > rve1 sz - r \<longrightarrow> sqrt (xt ^ 2 + (rve1 sz - yt) ^ 2) < r)
      \<and> (xt > rve0 sz - r \<and> yt > rve1 sz - r \<longrightarrow>
            sqrt ((rve0 sz - xt) ^ 2 + (rve1 sz - yt) ^ 2) < r)
      \<and> (xt > rve0 sz - r \<and> yt < r \<longrightarrow> sqrt ((rve0 sz - xt) ^ 2 + yt ^ 2) < r))"

text \<open>No two different points of a list are within the tolerance of each other.\<close>

definition tol_separated :: "point list \<Rightarrow> bool" where
  "tol_separated ps = list_all (\<lambda>p. list_all (\<lambda>q. near_dup p q \<longrightarrow> p = q) ps) ps"

section \<open>The Pairing Engine: \<^verbatim>\<open>pairBoundaryNodes3D\<close>\<close>







section \<open>The Classifier: \<^verbatim>\<open>classifyCellsImproved\<close>\<close>

text \<open>
  A solid region of the collaborator, as far as the classifier queries it:
  \<^verbatim>\<open>getSize()\<close> is its volume; \<^verbatim>\<open>getCentroid()\<close> gives a coordinate sequence, or
  \<^term>\<open>None\<close> when the call raises or returns nothing; \<^verbatim>\<open>getVertices()\<close> gives the
  vertices, \<^term>\<open>None\<close> when the call raises, and each vertex gives its point
  \<^verbatim>\<open>pointOn[0]\<close>, or \<^term>\<open>None\<close> when it has none or reading it raises.
\<close>

record cell =
  getSize :: real
  getCentroid :: "real list option"
  getVertices :: "(real \<times> real \<times> real) option list option"

text \<open>\<^verbatim>\<open>getCellCenterFromVertices\<close>: the mean of the vertex points that could be read.\<close>

definition getCellCenterFromVertices :: "cell \<Rightarrow> (real \<times> real \<times> real) option" where
  "getCellCenterFromVertices c =
     (case getVertices c of
        None \<Rightarrow> None
      | Some vertices \<Rightarrow>
          (let coords = concat (map (\<lambda>v. case v of None \<Rightarrow> [] | Some p \<Rightarrow> [p]) vertices)
           in if coords = [] then None
              else Some (sum_list (map fst coords) / real (length coords),
                         sum_list (map (fst \<circ> snd) coords) / real (length coords),
                         sum_list (map (snd \<circ> snd) coords) / real (length coords))))"

text \<open>Method 1, then method 2 of the loop body: the centre of one cell, if any.\<close>

definition cell_center :: "cell \<Rightarrow> (real \<times> real \<times> real) option" where
  "cell_center c =
     (case (case getCentroid c of
              None \<Rightarrow> None
            | Some cc \<Rightarrow> if cc \<noteq> [] \<and> length cc \<ge> 3 then Some (cc ! 0, cc ! 1, cc ! 2) else None)
      of Some p \<Rightarrow> Some p
       | None \<Rightarrow> getCellCenterFromVertices c)"

text \<open>\<^verbatim>\<open>for fc_x, fc_y in all_fiber_centers\<close>: the smallest in-plane distance, \<^term>\<open>None\<close>
  while it is still infinite.\<close>

fun min_center_dist :: "real \<Rightarrow> real \<Rightarrow> point list \<Rightarrow> real option \<Rightarrow> real option" where
  "min_center_dist cell_x cell_y [] min_dist = min_dist"
| "min_center_dist cell_x cell_y ((fc_x, fc_y) # rest) min_dist =
     (let dist = sqrt ((cell_x - fc_x) ^ 2 + (cell_y - fc_y) ^ 2)
      in min_center_dist cell_x cell_y rest
           (if (case min_dist of None \<Rightarrow> True | Some m \<Rightarrow> dist < m) then Some dist else min_dist))"

text \<open>
  \<^verbatim>\<open>for idx, cell in enumerate(potential_cells)\<close>, with the two result lists as the
  state; \<^verbatim>\<open>matrix_cells_list\<close> starts with the main matrix cell.
\<close>

fun classify_each ::
  "nat \<Rightarrow> cell list \<Rightarrow> point list \<Rightarrow> real \<Rightarrow> cell list \<times> cell list
     \<Rightarrow> error + (cell list \<times> cell list)" where
  "classify_each idx [] all_fiber_centers fiberRadius st = Inr st"
| "classify_each idx (c # rest) all_fiber_centers fiberRadius (fiber_cells_list, matrix_cells_list) =
     (case cell_center c of
        None \<Rightarrow> Inl (NoCellCenter idx (getSize c))
      | Some (cell_x, cell_y, cell_z) \<Rightarrow>
          (if (case min_center_dist cell_x cell_y all_fiber_centers None of
                 None \<Rightarrow> False
               | Some min_dist \<Rightarrow> min_dist < fiberRadius)
           then classify_each (Suc idx) rest all_fiber_centers fiberRadius
                  (fiber_cells_list @ [c], matrix_cells_list)
           else classify_each (Suc idx) rest all_fiber_centers fiberRadius
                  (fiber_cells_list, matrix_cells_list @ [c])))"

text \<open>
  Steps 1 to 4.  \<^verbatim>\<open>sorted(all_cells, key=lambda c: c.getSize(), reverse=True)\<close> is a
  stable sort by descending volume; \<^verbatim>\<open>sorted_cells[0]\<close> raises on an empty list.
\<close>

definition classify_labels ::
  "cell list \<Rightarrow> point list \<Rightarrow> rveSize \<Rightarrow> real \<Rightarrow> error + (cell list \<times> cell list)" where
  "classify_labels all_cells fiber_centers sz fiberRadius =
     (let sorted_cells = sort_key (\<lambda>c. - getSize c) all_cells
      in case sorted_cells of
           [] \<Rightarrow> Inl IndexError
         | main # potential_cells \<Rightarrow>
             (let all_fiber_centers = buildAllFiberCenters3D fiber_centers sz fiberRadius
              in if length potential_cells < length all_fiber_centers
                 then Inl (CellCountAnomaly (length potential_cells) (length all_fiber_centers))
                 else if length potential_cells = length all_fiber_centers
                 then Inr (potential_cells, [main])
                 else classify_each 0 potential_cells all_fiber_centers fiberRadius ([], [main])))"

text \<open>
  Step 6, the volume-fraction check: it only prints, but its three divisions raise on a
  zero divisor.
\<close>

definition volume_check ::
  "cell list \<Rightarrow> point list \<Rightarrow> rveSize \<Rightarrow> real \<Rightarrow> real \<Rightarrow> error + real" where
  "volume_check fiber_cells_list fiber_centers sz fiberRadius rveVolume =
     bind_err (py_div (sum_list (map getSize fiber_cells_list)) rveVolume) (\<lambda>actual_Vf.
     bind_err (py_div (real (length fiber_centers) * pi * fiberRadius ^ 2) (rve0 sz * rve1 sz))
       (\<lambda>target_Vf_from_count.
     bind_err (py_div \<bar>actual_Vf - target_Vf_from_count\<bar> target_Vf_from_count) (\<lambda>q.
       Inr (q * 100))))"

definition classifyCellsImproved ::
  "cell list \<Rightarrow> point list \<Rightarrow> rveSize \<Rightarrow> real \<Rightarrow> real \<Rightarrow> error + (cell list \<times> cell list)" where
  "classifyCellsImproved all_cells fiber_centers sz fiberRadius rveVolume =
     bind_err (classify_labels all_cells fiber_centers sz fiberRadius) (\<lambda>(fiber_cells_list, matrix_cells_list).
     bind_err (volume_check fiber_cells_list fiber_centers sz fiberRadius rveVolume) (\<lambda>deviation.
       Inr (fiber_cells_list, matrix_cells_list)))"

section \<open>Step 1 of \<^verbatim>\<open>create3DRVEModel\<close>: parameters and coordinates\<close>

text \<open>
  Python 2.7: \<^verbatim>\<open>round\<close> rounds to the nearest integer and a half away from zero,
  \<^verbatim>\<open>int\<close> cuts towards zero.
\<close>

definition py_round :: "real \<Rightarrow> int" where
  "py_round x = (if x \<ge> 0 then \<lfloor>x + 1 / 2\<rfloor> else \<lceil>x - 1 / 2\<rceil>)"

definition py_int :: "real \<Rightarrow> int" where
  "py_int x = (if x \<ge> 0 then \<lfloor>x\<rfloor> else \<lceil>x\<rceil>)"

text \<open>\<^verbatim>\<open>rveArea\<close>, \<^verbatim>\<open>fiberArea\<close>, \<^verbatim>\<open>fiberCount\<close> and \<^verbatim>\<open>minDistance\<close>.\<close>

definition rveArea :: "rveSize \<Rightarrow> real" where
  "rveArea sz = rve0 sz * rve1 sz"

definition fiberArea :: "real \<Rightarrow> real" where
  "fiberArea fiberRadius = pi * fiberRadius ^ 2"

definition fiberCount_of :: "rveSize \<Rightarrow> real \<Rightarrow> real \<Rightarrow> error + int" where
  "fiberCount_of sz fiberRadius target_Vf =
     bind_err (py_div (target_Vf * rveArea sz) (fiberArea fiberRadius)) (\<lambda>q. Inr (py_round q))"

definition minDistance_of :: "real \<Rightarrow> real \<Rightarrow> real" where
  "minDistance_of minDistanceFactor fiberRadius = minDistanceFactor * fiberRadius"

text \<open>
  The random source: \<open>rnd k\<close> is the value of the \<open>k\<close>-th call of \<^verbatim>\<open>random()\<close>, a number
  in \<open>[0, 1)\<close>, and \<^verbatim>\<open>rd.uniform(a, b)\<close> is \<^verbatim>\<open>a + (b - a) * random()\<close>.  The
  functions that draw return the position of the next unused value.
\<close>

definition uniform :: "(nat \<Rightarrow> real) \<Rightarrow> nat \<Rightarrow> real \<Rightarrow> real \<Rightarrow> real" where
  "uniform rnd k a b = a + (b - a) * rnd k"

text \<open>The loop \<^verbatim>\<open>for xc, yc in seeded_coords\<close> with its \<^verbatim>\<open>break\<close>: is the candidate
  too close to a seeded point?\<close>

definition is_too_close :: "real \<Rightarrow> real \<Rightarrow> point list \<Rightarrow> rveSize \<Rightarrow> real \<Rightarrow> bool" where
  "is_too_close xt yt seeded_coords sz minDistance =
     list_ex (\<lambda>(xc, yc).
        let dx0 = \<bar>xt - xc\<bar>;
            dy0 = \<bar>yt - yc\<bar>;
            dx = (if dx0 > rve0 sz / 2 then rve0 sz - dx0 else dx0);
            dy = (if dy0 > rve1 sz / 2 then rve1 sz - dy0 else dy0)
        in dx * dx + dy * dy < minDistance ^ 2) seeded_coords"

text \<open>\<^verbatim>\<open>for _ in range(rsa_max_attempts)\<close> for one anchor: the point placed, if any.\<close>

fun rsa_attempts ::
  "nat \<Rightarrow> (nat \<Rightarrow> real) \<Rightarrow> nat \<Rightarrow> point list \<Rightarrow> rveSize \<Rightarrow> real \<Rightarrow> point option \<times> nat" where
  "rsa_attempts 0 rnd k seeded_coords sz minDistance = (None, k)"
| "rsa_attempts (Suc a) rnd k seeded_coords sz minDistance =
     (let xt = uniform rnd k 0 (rve0 sz);
          yt = uniform rnd (Suc k) 0 (rve1 sz)
      in if \<not> is_too_close xt yt seeded_coords sz minDistance
         then (Some (xt, yt), Suc (Suc k))
         else rsa_attempts a rnd (Suc (Suc k)) seeded_coords sz minDistance)"

definition rsa_max_attempts :: nat where
  "rsa_max_attempts = 500"

text \<open>\<^verbatim>\<open>for i in range(seeding_count)\<close>, which stops at the first anchor that could not be
  placed.\<close>

fun rsa_seeding ::
  "nat \<Rightarrow> (nat \<Rightarrow> real) \<Rightarrow> nat \<Rightarrow> point list \<Rightarrow> rveSize \<Rightarrow> real \<Rightarrow> point list \<times> nat" where
  "rsa_seeding 0 rnd k seeded_coords sz minDistance = (seeded_coords, k)"
| "rsa_seeding (Suc n) rnd k seeded_coords sz minDistance =
     (case rsa_attempts rsa_max_attempts rnd k seeded_coords sz minDistance of
        (None, k') \<Rightarrow> (seeded_coords, k')
      | (Some p, k') \<Rightarrow> rsa_seeding n rnd k' (seeded_coords @ [p]) sz minDistance)"

text \<open>Stage 2, \<^verbatim>\<open>for _ in range(remaining)\<close>.\<close>

fun random_placement ::
  "nat \<Rightarrow> (nat \<Rightarrow> real) \<Rightarrow> nat \<Rightarrow> point list \<Rightarrow> rveSize \<Rightarrow> point list \<times> nat" where
  "random_placement 0 rnd k initial_coords sz = (initial_coords, k)"
| "random_placement (Suc n) rnd k initial_coords sz =
     random_placement n rnd (Suc (Suc k))
       (initial_coords @ [(uniform rnd k 0 (rve0 sz), uniform rnd (Suc k) 0 (rve1 sz))]) sz"

text \<open>
  How step 1 ends: with the message that a single fibre does not fit and a return, with
  the fatal error of the Corrector printed and a return (\<^verbatim>\<open>except Exception\<close> catches
  every exception of the Corrector), or with the fibre centres.  An exception of the
  parameter arithmetic or of the Relaxer is not caught and is the \<^term>\<open>Inl\<close> summand.
\<close>

datatype outcome =
    InvalidConfiguration
  | CorrectionFailed error
  | Centers "point list"

text \<open>Stages 1 to 4, entered when the fibre count is not zero and a single fibre fits.\<close>

definition place_fibers ::
  "int \<Rightarrow> rveSize \<Rightarrow> real \<Rightarrow> real \<Rightarrow> real \<Rightarrow> (nat \<Rightarrow> real) \<Rightarrow> error + outcome" where
  "place_fibers fiberCount sz fiberRadius minDistance rsa_seeding_ratio rnd =
     (let seeding_count = py_int (real_of_int fiberCount * rsa_seeding_ratio);
          seeded = rsa_seeding (nat seeding_count) rnd 0 [] sz minDistance;
          seeding_count_actual = int (length (fst seeded));
          remaining = fiberCount - seeding_count_actual;
          initial_coords = fst (random_placement (nat remaining) rnd (snd seeded) (fst seeded) sz)
      in bind_err (relax_coords_anchored initial_coords seeding_count_actual fiberCount sz
                     fiberRadius minDistance)
           (\<lambda>relaxed_coords.
              case final_check_and_enforce relaxed_coords fiberCount sz minDistance of
                Inl e \<Rightarrow> Inr (CorrectionFailed e)
              | Inr fiber_centers \<Rightarrow> Inr (Centers fiber_centers)))"

definition create3DRVEModel_step1 ::
  "rveSize \<Rightarrow> real \<Rightarrow> real \<Rightarrow> real \<Rightarrow> real \<Rightarrow> (nat \<Rightarrow> real) \<Rightarrow> error + outcome" where
  "create3DRVEModel_step1 sz fiberRadius target_Vf minDistanceFactor rsa_seeding_ratio rnd =
     bind_err (fiberCount_of sz fiberRadius target_Vf) (\<lambda>fiberCount.
       let minDistance = minDistance_of minDistanceFactor fiberRadius
       in if fiberCount = 0 then Inr (Centers [])
          else if fiberArea fiberRadius \<ge> rveArea sz then Inr InvalidConfiguration
          else place_fibers fiberCount sz fiberRadius minDistance rsa_seeding_ratio rnd)"

section \<open>Predicates used in the statements about step 1\<close>


text \<open>A random source that gives the same value at every call, for the examples.\<close>

definition constant_source :: "real \<Rightarrow> nat \<Rightarrow> real" where
  "constant_source u k = u"

section \<open>Basic facts about the error-passing steps\<close>





section \<open>The worst-pair scan\<close>


lemma pair_delta_Inr:
  "pair_delta coords sz i j = Inr d \<Longrightarrow>
     i < length coords \<and> j < length coords \<and>
     d = (wrap_delta (fst (coords ! j) - fst (coords ! i)) (rve0 sz),
          wrap_delta (snd (coords ! j) - snd (coords ! i)) (rve1 sz))"
  by (auto simp: pair_delta_def split: if_splits)




lemma find_worst_indices:
  "find_worst coords sz ps w = Inr w' \<Longrightarrow> \<forall>(i, j) \<in> set ps. i < length coords \<and> j < length coords"
proof (induction ps arbitrary: w)
  case Nil
  then show ?case by simp
next
  case (Cons p ps)
  obtain i j where p: "p = (i, j)" by (cases p)
  from Cons.prems(1) obtain dx dy where d: "pair_delta coords sz i j = Inr (dx, dy)"
    by (auto simp: p split: sum.splits)
  from Cons.prems(1) d obtain w1 where r: "find_worst coords sz ps w1 = Inr w'"
    by (simp add: p Let_def)
  from Cons.IH[OF r] pair_delta_Inr[OF d] show ?case by (auto simp: p)
qed

section \<open>Moving one pair\<close>






section \<open>The last scan and the correction loop\<close>







lemma index_pairs_0 [simp]: "index_pairs 0 = []"
  by (simp add: index_pairs_def)

lemma index_pairs_1 [simp]: "index_pairs (Suc 0) = []"
  by (simp add: index_pairs_def)


section \<open>The Relaxer returns\<close>









section \<open>Facts about the pairing loops\<close>







section \<open>Facts about the count gate of the classifier\<close>

lemma classify_few:
  assumes "length all_cells - 1 < length (buildAllFiberCenters3D fiber_centers sz r)"
  shows "classifyCellsImproved all_cells fiber_centers sz r vol =
     (if all_cells = [] then Inl IndexError
      else Inl (CellCountAnomaly (length all_cells - 1)
                  (length (buildAllFiberCenters3D fiber_centers sz r))))"
proof (cases "sort_key (\<lambda>c. - getSize c) all_cells")
  case Nil
  then have "all_cells = []" by (metis length_sort length_0_conv)
  with Nil show ?thesis
    by (simp add: classifyCellsImproved_def classify_labels_def bind_err_def)
next
  case (Cons main potential)
  have "length (sort_key (\<lambda>c. - getSize c) all_cells) = length all_cells" by simp
  with Cons have l: "length potential = length all_cells - 1" and ne: "all_cells \<noteq> []" by auto
  with Cons assms show ?thesis
    by (simp add: classifyCellsImproved_def classify_labels_def bind_err_def Let_def)
qed

lemma classify_equal:
  assumes "all_cells \<noteq> []"
    and "length all_cells - 1 = length (buildAllFiberCenters3D fiber_centers sz r)"
  shows "classify_labels all_cells fiber_centers sz r
           = Inr (tl (sort_key (\<lambda>c. - getSize c) all_cells), [hd (sort_key (\<lambda>c. - getSize c) all_cells)])"
    and "classifyCellsImproved all_cells fiber_centers sz r vol =
     (if vol = 0 \<or> rve0 sz * rve1 sz = 0 \<or> fiber_centers = [] \<or> r = 0
      then Inl ZeroDivisionError
      else Inr (tl (sort_key (\<lambda>c. - getSize c) all_cells), [hd (sort_key (\<lambda>c. - getSize c) all_cells)]))"
proof -
  obtain main potential where s: "sort_key (\<lambda>c. - getSize c) all_cells = main # potential"
    using assms(1) by (cases "sort_key (\<lambda>c. - getSize c) all_cells") (auto dest: arg_cong[where f=length])
  have "length (sort_key (\<lambda>c. - getSize c) all_cells) = length all_cells" by simp
  with s have l: "length potential = length all_cells - 1" by auto
  show lab: "classify_labels all_cells fiber_centers sz r
           = Inr (tl (sort_key (\<lambda>c. - getSize c) all_cells), [hd (sort_key (\<lambda>c. - getSize c) all_cells)])"
    using s l assms(2) by (simp add: classify_labels_def Let_def)
  show "classifyCellsImproved all_cells fiber_centers sz r vol =
     (if vol = 0 \<or> rve0 sz * rve1 sz = 0 \<or> fiber_centers = [] \<or> r = 0
      then Inl ZeroDivisionError
      else Inr (tl (sort_key (\<lambda>c. - getSize c) all_cells), [hd (sort_key (\<lambda>c. - getSize c) all_cells)]))"
    unfolding classifyCellsImproved_def lab
    by (auto simp: bind_err_def volume_check_def py_div_def)
qed

lemma insort_key_map_same_key:
  assumes "\<And>z. f (u z) = f z"
  shows "insort_key f (u x) (map u ys) = map u (insort_key f x ys)"
  by (induction ys) (simp_all add: assms)

lemma sort_key_map_same_key:
  assumes "\<And>z. f (u z) = f z"
  shows "sort_key f (map u xs) = map u (sort_key f xs)"
proof (induction xs)
  case Nil
  then show ?case by simp
next
  case (Cons x xs)
  have "insort_key f (u x) (map u (sort_key f xs)) = map u (insort_key f x (sort_key f xs))"
    using assms by (rule insort_key_map_same_key)
  with Cons show ?case by simp
qed

section \<open>Facts about the mirror builders\<close>

lemma unique_centers_subset: "set (unique_centers cs u) \<subseteq> set cs \<union> set u"
proof (induction cs arbitrary: u)
  case Nil
  then show ?case by simp
next
  case (Cons c cs)
  show ?case
  proof (cases "list_ex (near_dup c) u")
    case True
    with Cons.IH[of u] show ?thesis by auto
  next
    case False
    with Cons.IH[of "u @ [c]"] show ?thesis by auto
  qed
qed

lemma unique_centers_keeps: "set u \<subseteq> set (unique_centers cs u)"
proof (induction cs arbitrary: u)
  case Nil
  then show ?case by simp
next
  case (Cons c cs)
  show ?case
  proof (cases "list_ex (near_dup c) u")
    case True
    with Cons.IH[of u] show ?thesis by auto
  next
    case False
    with Cons.IH[of "u @ [c]"] show ?thesis by auto
  qed
qed

lemma unique_centers_set:
  "\<forall>p \<in> set cs \<union> set u. \<forall>q \<in> set cs \<union> set u. near_dup p q \<longrightarrow> p = q \<Longrightarrow>
     set (unique_centers cs u) = set cs \<union> set u"
proof (induction cs arbitrary: u)
  case Nil
  then show ?case by simp
next
  case (Cons c cs)
  have nd: "near_dup c c" by (simp add: near_dup_def)
  show ?case
  proof (cases "list_ex (near_dup c) u")
    case True
    then obtain e where e: "e \<in> set u" "near_dup c e" by (auto simp: list_ex_iff)
    with Cons.prems have "c = e" by auto
    with e have cu: "c \<in> set u" by simp
    have "set (unique_centers cs u) = set cs \<union> set u"
      by (rule Cons.IH) (use Cons.prems in auto)
    with True cu show ?thesis by auto
  next
    case False
    have "set (unique_centers cs (u @ [c])) = set cs \<union> set (u @ [c])"
      by (rule Cons.IH) (use Cons.prems in auto)
    with False show ?thesis by auto
  qed
qed

lemma fiber_images_subset: "set (fiber_images sz r p) \<subseteq> set (points_to_add sz r p)"
  by (cases p) (auto simp: fiber_images_def points_to_add_def split: if_splits)

lemma fiber_images_eq:
  "corner_close sz r p \<Longrightarrow> set (fiber_images sz r p) = set (points_to_add sz r p)"
  by (cases p) (auto simp: fiber_images_def points_to_add_def corner_close_def split: if_splits)

lemma set_mirror_coords:
  "set (mirror_coords cs sz r) = (\<Union>p \<in> set cs. set (points_to_add sz r p))"
  by (simp add: mirror_coords_def)

lemma build_subset_mirror:
  "set (buildAllFiberCenters3D cs sz r) \<subseteq> set (mirror_coords cs sz r)"
proof -
  have "set (buildAllFiberCenters3D cs sz r) \<subseteq> (\<Union>p \<in> set cs. set (fiber_images sz r p))"
    using unique_centers_subset[of "concat (map (fiber_images sz r) cs)" "[]"]
    by (simp add: buildAllFiberCenters3D_def)
  also have "\<dots> \<subseteq> (\<Union>p \<in> set cs. set (points_to_add sz r p))"
    using fiber_images_subset by fast
  finally show ?thesis by (simp add: set_mirror_coords)
qed

lemma build_eq_mirror:
  assumes "\<forall>p \<in> set cs. corner_close sz r p"
    and "tol_separated (concat (map (fiber_images sz r) cs))"
  shows "set (buildAllFiberCenters3D cs sz r) = set (mirror_coords cs sz r)"
proof -
  let ?all = "concat (map (fiber_images sz r) cs)"
  from assms(2) have "\<forall>p \<in> set ?all \<union> set []. \<forall>q \<in> set ?all \<union> set []. near_dup p q \<longrightarrow> p = q"
    by (simp add: tol_separated_def list_all_iff)
  from unique_centers_set[OF this]
  have "set (buildAllFiberCenters3D cs sz r) = (\<Union>p \<in> set cs. set (fiber_images sz r p))"
    by (simp add: buildAllFiberCenters3D_def)
  also have "\<dots> = (\<Union>p \<in> set cs. set (points_to_add sz r p))"
    using assms(1) fiber_images_eq by simp
  finally show ?thesis by (simp add: set_mirror_coords)
qed

section \<open>Bounds on \<open>pi\<close> from the Maclaurin expansion of the cosine\<close>

lemma sum_lessThan_6: "(\<Sum>m<6. g m) = g 0 + g 1 + g 2 + g 3 + g 4 + g (5::nat)" for g :: "nat \<Rightarrow> real"
  by (simp add: eval_nat_numeral)

lemma sum_lessThan_8:
  "(\<Sum>m<8. g m) = g 0 + g 1 + g 2 + g 3 + g 4 + g 5 + g 6 + g (7::nat)" for g :: "nat \<Rightarrow> real"
  by (simp add: eval_nat_numeral)

lemma cos_coeff_values:
  "cos_coeff 0 = 1" "cos_coeff 1 = 0" "cos_coeff 2 = - 1 / 2" "cos_coeff 3 = 0"
  "cos_coeff 4 = 1 / 24" "cos_coeff 5 = 0" "cos_coeff 6 = - 1 / 720" "cos_coeff 7 = 0"
  "cos_coeff (Suc 0) = 0"
  by (simp_all add: cos_coeff_def fact_numeral)

lemma cos_sum6: "(\<Sum>m<6. cos_coeff m * x ^ m) = 1 - x ^ 2 / 2 + x ^ 4 / 24" for x :: real
  by (simp add: sum_lessThan_6 cos_coeff_values)

lemma cos_sum8: "(\<Sum>m<8. cos_coeff m * x ^ m) = 1 - x ^ 2 / 2 + x ^ 4 / 24 - x ^ 6 / 720" for x :: real
  by (simp add: sum_lessThan_8 cos_coeff_values)

lemma cos_lower6:
  fixes x :: real
  assumes "0 < x"
  shows "1 - x ^ 2 / 2 + x ^ 4 / 24 - x ^ 6 / 720 \<le> cos x"
proof -
  from Maclaurin_cos_expansion2[OF assms, of 6] obtain t where
    t: "cos x = (\<Sum>m<6. cos_coeff m * x ^ m) + (cos (t + 1 / 2 * real 6 * pi) / fact 6) * x ^ 6"
    by auto
  have c: "cos (t + 1 / 2 * real 6 * pi) = - cos t"
  proof -
    have "t + 1 / 2 * real 6 * pi = (t + pi) + 2 * pi" by simp
    then show ?thesis by (simp only: cos_periodic cos_periodic_pi)
  qed
  have "cos t \<le> 1" by simp
  then have "- cos t / 720 * x ^ 6 \<ge> - (x ^ 6 / 720)"
    using assms by (simp add: field_simps mult_right_mono)
  with t c show ?thesis by (simp add: cos_sum6 fact_numeral)
qed

lemma cos_upper8:
  fixes x :: real
  assumes "0 < x"
  shows "cos x \<le> 1 - x ^ 2 / 2 + x ^ 4 / 24 - x ^ 6 / 720 + x ^ 8 / 40320"
proof -
  from Maclaurin_cos_expansion2[OF assms, of 8] obtain t where
    t: "cos x = (\<Sum>m<8. cos_coeff m * x ^ m) + (cos (t + 1 / 2 * real 8 * pi) / fact 8) * x ^ 8"
    by auto
  have c: "cos (t + 1 / 2 * real 8 * pi) = cos t"
  proof -
    have "t + 1 / 2 * real 8 * pi = (t + 2 * pi) + 2 * pi" by simp
    then show ?thesis by (simp only: cos_periodic)
  qed
  have "cos t \<le> 1" by simp
  then have "cos t / 40320 * x ^ 8 \<le> x ^ 8 / 40320"
    using assms by (simp add: field_simps mult_right_mono)
  with t c show ?thesis by (simp add: cos_sum8 fact_numeral)
qed

lemma pi_lower: "25 / 8 < pi"
proof (rule ccontr)
  assume "\<not> 25 / 8 < pi"
  then have le: "pi / 2 \<le> 25 / 16" by simp
  have "0 < cos (25 / 16 :: real)"
  proof -
    have "0 < 1 - (25 / 16 :: real) ^ 2 / 2 + (25 / 16) ^ 4 / 24 - (25 / 16) ^ 6 / 720"
      by (simp add: power_divide)
    also have "\<dots> \<le> cos (25 / 16)" by (rule cos_lower6) simp
    finally show ?thesis .
  qed
  moreover have "cos (25 / 16 :: real) \<le> cos (pi / 2)"
  proof (rule cos_monotone_0_pi_le)
    show "0 \<le> pi / 2" by simp
    show "pi / 2 \<le> 25 / 16" by (rule le)
    show "(25 / 16 :: real) \<le> pi" using pi_ge_two by simp
  qed
  ultimately show False by simp
qed

lemma pi_upper: "pi < 789 / 250"
proof (rule ccontr)
  assume "\<not> pi < 789 / 250"
  then have ge: "789 / 500 \<le> pi / 2" by simp
  have "cos (789 / 500 :: real) \<le> 1 - (789 / 500) ^ 2 / 2 + (789 / 500) ^ 4 / 24
      - (789 / 500) ^ 6 / 720 + (789 / 500) ^ 8 / 40320"
    by (rule cos_upper8) simp
  also have "\<dots> < 0" by (simp add: power_divide)
  finally have "cos (789 / 500 :: real) < 0" .
  moreover have "0 \<le> cos (789 / 500 :: real)"
    by (rule cos_ge_zero) (use ge in simp_all)
  ultimately show False by simp
qed

section \<open>Points stay in the domain\<close>










section \<open>The centres of step 1 lie in the domain\<close>








section \<open>Evaluating the parameters and a run with one fibre\<close>

lemma py_round_eq:
  assumes "0 \<le> x" "real_of_int n - 1 / 2 \<le> x" "x < real_of_int n + 1 / 2"
  shows "py_round x = n"
proof -
  have "\<lfloor>x + 1 / 2\<rfloor> = n" by (rule floor_unique) (use assms in simp_all)
  with assms(1) show ?thesis by (simp add: py_round_def)
qed

lemma py_round_nearest: "\<bar>real_of_int (py_round x) - x\<bar> \<le> 1 / 2"
proof (cases "0 \<le> x")
  case True
  have "real_of_int \<lfloor>x + 1 / 2\<rfloor> \<le> x + 1 / 2" "x + 1 / 2 < real_of_int \<lfloor>x + 1 / 2\<rfloor> + 1"
    by linarith+
  moreover have "py_round x = \<lfloor>x + 1 / 2\<rfloor>" using True by (simp add: py_round_def)
  ultimately show ?thesis by linarith
next
  case False
  have "x - 1 / 2 \<le> real_of_int \<lceil>x - 1 / 2\<rceil>" "real_of_int \<lceil>x - 1 / 2\<rceil> < x - 1 / 2 + 1"
    by linarith+
  moreover have "py_round x = \<lceil>x - 1 / 2\<rceil>" using False by (simp add: py_round_def)
  ultimately show ?thesis by linarith
qed

lemma div_pi_bounds:
  assumes "0 < a"
  shows "a * 250 / 789 < a / pi \<and> a / pi < a * 8 / 25"
proof -
  have "a / (789 / 250) < a / pi"
    using assms pi_upper pi_gt_zero by (intro divide_strict_left_mono) simp_all
  moreover have "a / pi < a / (25 / 8)"
    using assms pi_lower by (intro divide_strict_left_mono) simp_all
  ultimately show ?thesis by simp
qed

lemma fiberCount_of_value:
  assumes "0 < a" "target_Vf * rveArea sz = a" "fiberArea R = pi"
    and "real_of_int n - 1 / 2 \<le> a * 250 / 789" "a * 8 / 25 \<le> real_of_int n + 1 / 2"
  shows "fiberCount_of sz R target_Vf = Inr n"
proof -
  from div_pi_bounds[OF assms(1)] assms(4,5)
  have b: "real_of_int n - 1 / 2 \<le> a / pi" "a / pi < real_of_int n + 1 / 2" by linarith+
  have "0 \<le> a / pi" using assms(1) by simp
  from py_round_eq[OF this b] assms(2,3) show ?thesis
    by (simp add: fiberCount_of_def bind_err_def py_div_def)
qed

lemma fiberCount_scenario_A: "fiberCount_of (10, 10, 1) 1 0.3 = Inr 10"
  by (rule fiberCount_of_value[where a = 30]) (simp_all add: rveArea_def fiberArea_def rve0_def rve1_def)

lemma fiberCount_full: "fiberCount_of (10, 10, 1) 1 1 = Inr 32"
  by (rule fiberCount_of_value[where a = 100]) (simp_all add: rveArea_def fiberArea_def rve0_def rve1_def)


lemma fiberCount_oversized: "fiberCount_of (1, 1, 1) 1 2 = Inr 1"
  by (rule fiberCount_of_value[where a = 2]) (simp_all add: rveArea_def fiberArea_def rve0_def rve1_def)


lemma place_fibers_not_invalid: "place_fibers fc sz R md ratio rnd \<noteq> Inr InvalidConfiguration"
  by (auto simp: place_fibers_def Let_def bind_err_def split: sum.splits)




section \<open>Claims about the Corrector\<close>






section \<open>Claims about the Relaxer\<close>




section \<open>Claims about step 1 of the pipeline\<close>

text \<open>
  Claim C3.  For a radius that is not zero the fibre count is the quotient
  \<open>target_Vf * W * H / (pi * fiberRadius\<^sup>2)\<close> rounded to the nearest integer (a half
  away from zero), so it differs from the quotient by at most one half; the minimum
  distance is \<open>minDistanceFactor * fiberRadius\<close>.  For \<open>W = H = 10\<close>, radius 1,
  factor 2.1 and \<open>target_Vf = 0.3\<close> the count is 10 and the minimum distance 2.1.
\<close>

theorem fiber_count_and_min_distance:
  "(fiberRadius \<noteq> 0 \<longrightarrow>
      fiberCount_of sz fiberRadius target_Vf
        = Inr (py_round (target_Vf * (rve0 sz * rve1 sz) / (pi * fiberRadius ^ 2)))
    \<and> \<bar>real_of_int (py_round (target_Vf * (rve0 sz * rve1 sz) / (pi * fiberRadius ^ 2)))
         - target_Vf * (rve0 sz * rve1 sz) / (pi * fiberRadius ^ 2)\<bar> \<le> 1 / 2)
   \<and> minDistance_of minDistanceFactor fiberRadius = minDistanceFactor * fiberRadius
   \<and> fiberCount_of (10, 10, 1) 1 0.3 = Inr 10
   \<and> minDistance_of 2.1 1 = 2.1"
proof (intro conjI impI)
  assume "fiberRadius \<noteq> 0"
  then show "fiberCount_of sz fiberRadius target_Vf
        = Inr (py_round (target_Vf * (rve0 sz * rve1 sz) / (pi * fiberRadius ^ 2)))"
    by (simp add: fiberCount_of_def bind_err_def py_div_def rveArea_def fiberArea_def)
next
  show "\<bar>real_of_int (py_round (target_Vf * (rve0 sz * rve1 sz) / (pi * fiberRadius ^ 2)))
         - target_Vf * (rve0 sz * rve1 sz) / (pi * fiberRadius ^ 2)\<bar> \<le> 1 / 2"
    by (rule py_round_nearest)
next
  show "minDistance_of minDistanceFactor fiberRadius = minDistanceFactor * fiberRadius"
    by (simp add: minDistance_of_def)
next
  show "fiberCount_of (10, 10, 1) 1 0.3 = Inr 10" by (rule fiberCount_scenario_A)
next
  show "minDistance_of 2.1 1 = 2.1" by (simp add: minDistance_of_def)
qed

text \<open>
  Claim C3, at an input: the configuration of scenario A has a radius that is not zero, and
  its count, 10, is the rounded quotient.
\<close>

theorem fiber_count_and_min_distance_witness:
  "(1 :: real) \<noteq> 0
   \<and> py_round (0.3 * (rve0 (10, 10, 1) * rve1 (10, 10, 1)) / (pi * 1 ^ 2)) = 10"
proof -
  have h: "(1 :: real) \<noteq> 0" by simp
  from fiber_count_and_min_distance[where fiberRadius = 1 and sz = "(10, 10, 1)"
      and target_Vf = "0.3", THEN conjunct1, THEN mp, OF h, THEN conjunct1]
  have "fiberCount_of (10, 10, 1) 1 0.3
        = Inr (py_round (0.3 * (rve0 (10, 10, 1) * rve1 (10, 10, 1)) / (pi * 1 ^ 2)))" .
  then have "py_round (0.3 * (rve0 (10, 10, 1) * rve1 (10, 10, 1)) / (pi * 1 ^ 2)) = 10"
    unfolding fiberCount_scenario_A by simp
  with h show ?thesis by (rule conjI)
qed

text \<open>
  Claim C2 as it is written.  The pipeline compares the area of a single fibre with the
  domain area, not the area of all fibres.  For \<open>W = H = 10\<close>, radius 1 and
  \<open>target_Vf = 1\<close> the count is 32 and the 32 fibres have more area than the domain, yet a
  single fibre fits and the pipeline goes on to placement: it does not end with the
  invalid-configuration message.
\<close>

theorem total_area_counterexample:
  "fiberCount_of (10, 10, 1) 1 1 = Inr 32
   \<and> fiberArea 1 * 32 \<ge> rveArea (10, 10, 1)
   \<and> create3DRVEModel_step1 (10, 10, 1) 1 1 2.05 0.9 (constant_source 0)
       = place_fibers 32 (10, 10, 1) 1 (minDistance_of 2.05 1) 0.9 (constant_source 0)
   \<and> create3DRVEModel_step1 (10, 10, 1) 1 1 2.05 0.9 (constant_source 0)
       \<noteq> Inr InvalidConfiguration"
proof -
  have a: "fiberArea 1 * 32 \<ge> rveArea (10, 10, 1)"
    using pi_lower by (simp add: fiberArea_def rveArea_def rve0_def rve1_def)
  have b: "\<not> rveArea (10, 10, 1) \<le> fiberArea 1"
    using pi_upper by (simp add: fiberArea_def rveArea_def rve0_def rve1_def)
  have c: "create3DRVEModel_step1 (10, 10, 1) 1 1 2.05 0.9 (constant_source 0)
       = place_fibers 32 (10, 10, 1) 1 (minDistance_of 2.05 1) 0.9 (constant_source 0)"
    unfolding create3DRVEModel_step1_def fiberCount_full
    using b by (simp add: bind_err_def Let_def)
  have d: "create3DRVEModel_step1 (10, 10, 1) 1 1 2.05 0.9 (constant_source 0)
       \<noteq> Inr InvalidConfiguration"
    unfolding c by (rule place_fibers_not_invalid)
  from fiberCount_full a c d show ?thesis by (intro conjI)
qed

text \<open>
  Claim C2, amended.  For every configuration whose fibre count is not zero: when the area
  of a single fibre is at least the domain area, the pipeline ends with the
  invalid-configuration message whatever the random source gives, so before any placement;
  when a single fibre is smaller than the domain, the pipeline goes on to placement and
  does not end with that message, also when the fibres together have more area than the
  domain.
\<close>

theorem single_fiber_area_gate:
  "fiberCount_of sz fiberRadius target_Vf = Inr n \<and> n \<noteq> 0 \<longrightarrow>
     (fiberArea fiberRadius \<ge> rveArea sz \<longrightarrow>
        create3DRVEModel_step1 sz fiberRadius target_Vf minDistanceFactor rsa_seeding_ratio rnd
          = Inr InvalidConfiguration)
   \<and> (fiberArea fiberRadius < rveArea sz \<longrightarrow>
        create3DRVEModel_step1 sz fiberRadius target_Vf minDistanceFactor rsa_seeding_ratio rnd
          = place_fibers n sz fiberRadius (minDistance_of minDistanceFactor fiberRadius)
              rsa_seeding_ratio rnd
      \<and> create3DRVEModel_step1 sz fiberRadius target_Vf minDistanceFactor rsa_seeding_ratio rnd
          \<noteq> Inr InvalidConfiguration)"
proof (intro impI conjI)
  assume h: "fiberCount_of sz fiberRadius target_Vf = Inr n \<and> n \<noteq> 0"
  {
    assume "fiberArea fiberRadius \<ge> rveArea sz"
    with h show "create3DRVEModel_step1 sz fiberRadius target_Vf minDistanceFactor rsa_seeding_ratio rnd
          = Inr InvalidConfiguration"
      by (simp add: create3DRVEModel_step1_def bind_err_def Let_def)
  }
  assume "fiberArea fiberRadius < rveArea sz"
  with h show e: "create3DRVEModel_step1 sz fiberRadius target_Vf minDistanceFactor rsa_seeding_ratio rnd
          = place_fibers n sz fiberRadius (minDistance_of minDistanceFactor fiberRadius)
              rsa_seeding_ratio rnd"
    by (simp add: create3DRVEModel_step1_def bind_err_def Let_def)
  show "create3DRVEModel_step1 sz fiberRadius target_Vf minDistanceFactor rsa_seeding_ratio rnd
          \<noteq> Inr InvalidConfiguration"
    unfolding e by (rule place_fibers_not_invalid)
qed

text \<open>
  Claim C2, amended, at inputs: a fibre of radius 1 in a 1 by 1 domain with
  \<open>target_Vf = 2\<close> has count 1 and does not fit, and the pipeline ends with the message;
  the configuration of the counterexample has count 32 and a single fibre fits.
\<close>

theorem single_fiber_area_gate_witness:
  "fiberCount_of (1, 1, 1) 1 2 = Inr 1 \<and> (1 :: int) \<noteq> 0
   \<and> fiberArea 1 \<ge> rveArea (1, 1, 1)
   \<and> create3DRVEModel_step1 (1, 1, 1) 1 2 2.05 0.9 (constant_source 0) = Inr InvalidConfiguration
   \<and> fiberCount_of (10, 10, 1) 1 1 = Inr 32 \<and> (32 :: int) \<noteq> 0
   \<and> fiberArea 1 < rveArea (10, 10, 1)
   \<and> create3DRVEModel_step1 (10, 10, 1) 1 1 2.05 0.9 (constant_source 0)
       \<noteq> Inr InvalidConfiguration"
proof -
  have h1: "fiberCount_of (1, 1, 1) 1 2 = Inr 1 \<and> (1 :: int) \<noteq> 0"
    using fiberCount_oversized by simp
  have a1: "fiberArea 1 \<ge> rveArea (1, 1, 1)"
    using pi_ge_two by (simp add: fiberArea_def rveArea_def rve0_def rve1_def)
  have h2: "fiberCount_of (10, 10, 1) 1 1 = Inr 32 \<and> (32 :: int) \<noteq> 0"
    using fiberCount_full by simp
  have a2: "fiberArea 1 < rveArea (10, 10, 1)"
    using pi_upper by (simp add: fiberArea_def rveArea_def rve0_def rve1_def)
  from single_fiber_area_gate[where sz = "(1, 1, 1)" and fiberRadius = 1 and target_Vf = 2
      and n = 1 and minDistanceFactor = "2.05" and rsa_seeding_ratio = "0.9"
      and rnd = "constant_source 0", THEN mp, OF h1, THEN conjunct1, THEN mp, OF a1]
  have r1: "create3DRVEModel_step1 (1, 1, 1) 1 2 2.05 0.9 (constant_source 0)
      = Inr InvalidConfiguration" .
  from single_fiber_area_gate[where sz = "(10, 10, 1)" and fiberRadius = 1 and target_Vf = 1
      and n = 32 and minDistanceFactor = "2.05" and rsa_seeding_ratio = "0.9"
      and rnd = "constant_source 0", THEN mp, OF h2, THEN conjunct2, THEN mp, OF a2, THEN conjunct2]
  have r2: "create3DRVEModel_step1 (10, 10, 1) 1 1 2.05 0.9 (constant_source 0)
       \<noteq> Inr InvalidConfiguration" .
  from h1 a1 r1 h2 a2 r2 show ?thesis by blast
qed



section \<open>Claims about the mirror builders\<close>

text \<open>
  Claim C9.  For the single centre \<open>(0.05, 5.0)\<close> in a domain of width and height 10 with
  radius 0.5 the Mirror Builder returns the centre and one image, \<open>(10.05, 5.0)\<close>, and
  nothing at the right edge.  In general, in a domain of non-zero width and height, a
  diagonal image of a centre is among the images appended for it exactly when the centre
  is within the radius of both edges of that corner and its Euclidean distance to the
  corner vertex is below the radius; and the list returned for a single centre holds a
  diagonal image only then.
\<close>

theorem mirror_builder_scenario_and_corners:
  "buildAllFiberCenters3D [(0.05, 5)] (10, 10, d) 0.5 = [(0.05, 5), (10.05, 5)]
   \<and> (rve0 sz \<noteq> 0 \<and> rve1 sz \<noteq> 0 \<longrightarrow>
        ((xt + rve0 sz, yt + rve1 sz) \<in> set (fiber_images sz r (xt, yt))
           \<longleftrightarrow> xt < r \<and> yt < r \<and> sqrt (xt ^ 2 + yt ^ 2) < r)
      \<and> ((xt + rve0 sz, yt - rve1 sz) \<in> set (fiber_images sz r (xt, yt))
           \<longleftrightarrow> xt < r \<and> yt > rve1 sz - r \<and> sqrt (xt ^ 2 + (rve1 sz - yt) ^ 2) < r)
      \<and> ((xt - rve0 sz, yt - rve1 sz) \<in> set (fiber_images sz r (xt, yt))
           \<longleftrightarrow> xt > rve0 sz - r \<and> yt > rve1 sz - r
               \<and> sqrt ((rve0 sz - xt) ^ 2 + (rve1 sz - yt) ^ 2) < r)
      \<and> ((xt - rve0 sz, yt + rve1 sz) \<in> set (fiber_images sz r (xt, yt))
           \<longleftrightarrow> xt > rve0 sz - r \<and> yt < r \<and> sqrt ((rve0 sz - xt) ^ 2 + yt ^ 2) < r)
      \<and> ((xt + rve0 sz, yt + rve1 sz) \<in> set (buildAllFiberCenters3D [(xt, yt)] sz r)
           \<longrightarrow> xt < r \<and> yt < r \<and> sqrt (xt ^ 2 + yt ^ 2) < r)
      \<and> ((xt + rve0 sz, yt - rve1 sz) \<in> set (buildAllFiberCenters3D [(xt, yt)] sz r)
           \<longrightarrow> xt < r \<and> yt > rve1 sz - r \<and> sqrt (xt ^ 2 + (rve1 sz - yt) ^ 2) < r)
      \<and> ((xt - rve0 sz, yt - rve1 sz) \<in> set (buildAllFiberCenters3D [(xt, yt)] sz r)
           \<longrightarrow> xt > rve0 sz - r \<and> yt > rve1 sz - r
               \<and> sqrt ((rve0 sz - xt) ^ 2 + (rve1 sz - yt) ^ 2) < r)
      \<and> ((xt - rve0 sz, yt + rve1 sz) \<in> set (buildAllFiberCenters3D [(xt, yt)] sz r)
           \<longrightarrow> xt > rve0 sz - r \<and> yt < r \<and> sqrt ((rve0 sz - xt) ^ 2 + yt ^ 2) < r))"
proof (intro conjI impI)
  show "buildAllFiberCenters3D [(0.05, 5)] (10, 10, d) 0.5 = [(0.05, 5), (10.05, 5)]"
    by (simp add: buildAllFiberCenters3D_def fiber_images_def rve0_def rve1_def near_dup_def)
next
  assume nz: "rve0 sz \<noteq> 0 \<and> rve1 sz \<noteq> 0"
  have sub: "set (buildAllFiberCenters3D [(xt, yt)] sz r) \<subseteq> set (fiber_images sz r (xt, yt))"
    using unique_centers_subset[of "fiber_images sz r (xt, yt)" "[]"]
    by (simp add: buildAllFiberCenters3D_def)
  show ll: "(xt + rve0 sz, yt + rve1 sz) \<in> set (fiber_images sz r (xt, yt))
           \<longleftrightarrow> xt < r \<and> yt < r \<and> sqrt (xt ^ 2 + yt ^ 2) < r"
    using nz by (simp add: fiber_images_def)
  show ul: "(xt + rve0 sz, yt - rve1 sz) \<in> set (fiber_images sz r (xt, yt))
           \<longleftrightarrow> xt < r \<and> yt > rve1 sz - r \<and> sqrt (xt ^ 2 + (rve1 sz - yt) ^ 2) < r"
    using nz by (simp add: fiber_images_def)
  show ur: "(xt - rve0 sz, yt - rve1 sz) \<in> set (fiber_images sz r (xt, yt))
           \<longleftrightarrow> xt > rve0 sz - r \<and> yt > rve1 sz - r
               \<and> sqrt ((rve0 sz - xt) ^ 2 + (rve1 sz - yt) ^ 2) < r"
    using nz by (simp add: fiber_images_def)
  show lr: "(xt - rve0 sz, yt + rve1 sz) \<in> set (fiber_images sz r (xt, yt))
           \<longleftrightarrow> xt > rve0 sz - r \<and> yt < r \<and> sqrt ((rve0 sz - xt) ^ 2 + yt ^ 2) < r"
    using nz by (simp add: fiber_images_def)
  show "xt < r" "yt < r" "sqrt (xt ^ 2 + yt ^ 2) < r"
    if "(xt + rve0 sz, yt + rve1 sz) \<in> set (buildAllFiberCenters3D [(xt, yt)] sz r)"
    using that sub ll by blast+
  show "xt < r" "yt > rve1 sz - r" "sqrt (xt ^ 2 + (rve1 sz - yt) ^ 2) < r"
    if "(xt + rve0 sz, yt - rve1 sz) \<in> set (buildAllFiberCenters3D [(xt, yt)] sz r)"
    using that sub ul by blast+
  show "xt > rve0 sz - r" "yt > rve1 sz - r" "sqrt ((rve0 sz - xt) ^ 2 + (rve1 sz - yt) ^ 2) < r"
    if "(xt - rve0 sz, yt - rve1 sz) \<in> set (buildAllFiberCenters3D [(xt, yt)] sz r)"
    using that sub ur by blast+
  show "xt > rve0 sz - r" "yt < r" "sqrt ((rve0 sz - xt) ^ 2 + yt ^ 2) < r"
    if "(xt - rve0 sz, yt + rve1 sz) \<in> set (buildAllFiberCenters3D [(xt, yt)] sz r)"
    using that sub lr by blast+
qed

text \<open>
  Claim C9, at an input: in a 10 by 10 domain with radius 1 the centre \<open>(0.3, 0.4)\<close> is at
  distance 0.5 from the lower left vertex, and its diagonal image \<open>(10.3, 10.4)\<close> is among
  its images.
\<close>

theorem mirror_builder_scenario_and_corners_witness:
  "rve0 (10, 10, 1) \<noteq> 0 \<and> rve1 (10, 10, 1) \<noteq> 0
   \<and> (0.3 + rve0 (10, 10, 1), 0.4 + rve1 (10, 10, 1)) \<in> set (fiber_images (10, 10, 1) 1 (0.3, 0.4))
   \<and> (0.3 + rve0 (10, 10, 1), 0.4 + rve1 (10, 10, 1)) = (10.3, 10.4)"
proof -
  have nz: "rve0 (10, 10, 1) \<noteq> 0 \<and> rve1 (10, 10, 1) \<noteq> 0"
    by (simp add: rve0_def rve1_def)
  have c: "(0.3 :: real) < 1 \<and> (0.4 :: real) < 1 \<and> sqrt (0.3 ^ 2 + 0.4 ^ 2) < (1 :: real)"
    by (simp add: power2_eq_square)
  note inst = mirror_builder_scenario_and_corners[where d = 1 and sz = "(10, 10, 1)" and xt = "0.3" and yt = "0.4" and r = 1]
  from inst[THEN conjunct2, THEN mp, OF nz, THEN conjunct1, THEN iffD2, OF c] nz
  show ?thesis by (simp add: rve0_def rve1_def)
qed

text \<open>
  Claim C10 as it is written.  The inline generation of step 2 appends a diagonal image
  whenever a centre is within the radius of both edges of a corner;
  \<^verbatim>\<open>buildAllFiberCenters3D\<close> asks in addition that the centre is within the radius of the
  corner vertex.  The centre \<open>(0.9, 0.9)\<close> with radius 1 in a 10 by 10 domain is near both
  edges and at distance \<open>sqrt 1.62\<close> from the vertex: the two sets of coordinates differ.
\<close>

theorem mirror_builders_differ_counterexample:
  "set (mirror_coords [(0.9, 0.9)] (10, 10, 1) 1)
     \<noteq> set (buildAllFiberCenters3D [(0.9, 0.9)] (10, 10, 1) 1)"
proof -
  have a: "(10.9, 10.9) \<in> set (mirror_coords [(0.9, 0.9)] (10, 10, 1) 1)"
    by (simp add: set_mirror_coords points_to_add_def rve0_def rve1_def)
  have "\<not> sqrt (0.9 ^ 2 + 0.9 ^ 2) < 1"
    by (simp add: real_less_lsqrt power2_eq_square not_less real_le_rsqrt)
  then have b: "(10.9, 10.9) \<notin> set (buildAllFiberCenters3D [(0.9, 0.9)] (10, 10, 1) 1)"
    by (simp add: buildAllFiberCenters3D_def fiber_images_def rve0_def rve1_def near_dup_def)
  from a b show ?thesis by metis
qed

text \<open>
  Claim C10, amended.  Every centre that \<^verbatim>\<open>buildAllFiberCenters3D\<close> returns is among the
  coordinates of the inline generation.  The two sets are equal when every centre that is
  within the radius of both edges of a corner is also within the radius of that corner's
  vertex, and no two different candidate images are within the tolerance \<open>1e-6\<close> of each
  other in both coordinates.
\<close>

theorem mirror_builders_inclusion:
  "set (buildAllFiberCenters3D cs sz r) \<subseteq> set (mirror_coords cs sz r)
   \<and> (list_all (corner_close sz r) cs
        \<and> tol_separated (concat (map (fiber_images sz r) cs))
      \<longrightarrow> set (buildAllFiberCenters3D cs sz r) = set (mirror_coords cs sz r))"
  using build_subset_mirror build_eq_mirror by (simp add: list_all_iff)

text \<open>
  Claim C10, amended, at an input: for the centre \<open>(0.05, 5.0)\<close> of claim C9 both
  conditions hold and the two builders give the same set.
\<close>

theorem mirror_builders_inclusion_witness:
  "list_all (corner_close (10, 10, 1) 0.5) [(0.05, 5)]
   \<and> tol_separated (concat (map (fiber_images (10, 10, 1) 0.5) [(0.05, 5)]))
   \<and> set (buildAllFiberCenters3D [(0.05, 5)] (10, 10, 1) 0.5)
       = set (mirror_coords [(0.05, 5)] (10, 10, 1) 0.5)"
proof -
  have h: "list_all (corner_close (10, 10, 1) 0.5) [(0.05, 5)]
     \<and> tol_separated (concat (map (fiber_images (10, 10, 1) 0.5) [(0.05, 5)]))"
    by (simp add: corner_close_def tol_separated_def fiber_images_def rve0_def rve1_def near_dup_def)
  from mirror_builders_inclusion[of "[(0.05, 5)]" "(10, 10, 1)" "0.5", THEN conjunct2, THEN mp, OF h] h
  show ?thesis by blast
qed

section \<open>Claim about the Pairing Engine\<close>



section \<open>Claim about the Classifier\<close>

text \<open>
  Claim C6.  Let the remaining regions be the regions after the largest one, and the
  mirrored centres the list that the Mirror Builder returns.  With fewer remaining regions
  than mirrored centres the classification raises: the fatal count error, which carries the
  two counts (or, with no region at all, the error of reading the first region).  With as
  many remaining regions as mirrored centres all remaining regions are labelled fibre and
  the largest one matrix, and no centroid is asked for: the result is the same whatever the
  centroid and vertex queries of the regions would answer, also when they would fail; the
  function returns these labels unless one of the divisions of its volume check has a zero
  divisor.
\<close>

theorem classifier_count_gate:
  "(length (tl (sort_key (\<lambda>c. - getSize c) all_cells))
       < length (buildAllFiberCenters3D fiber_centers sz r) \<longrightarrow>
      classifyCellsImproved all_cells fiber_centers sz r vol =
        (if all_cells = [] then Inl IndexError
         else Inl (CellCountAnomaly (length (tl (sort_key (\<lambda>c. - getSize c) all_cells)))
                     (length (buildAllFiberCenters3D fiber_centers sz r)))))
   \<and> (all_cells \<noteq> [] \<and> length (tl (sort_key (\<lambda>c. - getSize c) all_cells))
          = length (buildAllFiberCenters3D fiber_centers sz r) \<longrightarrow>
        classify_labels all_cells fiber_centers sz r
          = Inr (tl (sort_key (\<lambda>c. - getSize c) all_cells),
                 [hd (sort_key (\<lambda>c. - getSize c) all_cells)])
      \<and> classifyCellsImproved all_cells fiber_centers sz r vol =
          (if vol = 0 \<or> rve0 sz * rve1 sz = 0 \<or> fiber_centers = [] \<or> r = 0
           then Inl ZeroDivisionError
           else Inr (tl (sort_key (\<lambda>c. - getSize c) all_cells),
                     [hd (sort_key (\<lambda>c. - getSize c) all_cells)]))
      \<and> (\<forall>f g. classify_labels (map (\<lambda>c. c\<lparr>getCentroid := f c, getVertices := g c\<rparr>) all_cells)
                   fiber_centers sz r
            = Inr (map (\<lambda>c. c\<lparr>getCentroid := f c, getVertices := g c\<rparr>)
                     (tl (sort_key (\<lambda>c. - getSize c) all_cells)),
                   [(\<lambda>c. c\<lparr>getCentroid := f c, getVertices := g c\<rparr>)
                      (hd (sort_key (\<lambda>c. - getSize c) all_cells))])))"
proof (intro conjI impI allI)
  have len: "length (tl (sort_key (\<lambda>c. - getSize c) all_cells)) = length all_cells - 1"
    by simp
  {
    assume "length (tl (sort_key (\<lambda>c. - getSize c) all_cells))
       < length (buildAllFiberCenters3D fiber_centers sz r)"
    then have "length all_cells - 1 < length (buildAllFiberCenters3D fiber_centers sz r)"
      by (simp only: len)
    from classify_few[OF this, of vol]
    show "classifyCellsImproved all_cells fiber_centers sz r vol =
        (if all_cells = [] then Inl IndexError
         else Inl (CellCountAnomaly (length (tl (sort_key (\<lambda>c. - getSize c) all_cells)))
                     (length (buildAllFiberCenters3D fiber_centers sz r))))"
      by (simp only: len)
  }
  assume h: "all_cells \<noteq> [] \<and> length (tl (sort_key (\<lambda>c. - getSize c) all_cells))
          = length (buildAllFiberCenters3D fiber_centers sz r)"
  then have ne: "all_cells \<noteq> []"
    and eq: "length all_cells - 1 = length (buildAllFiberCenters3D fiber_centers sz r)"
    by simp_all
  show "classify_labels all_cells fiber_centers sz r
          = Inr (tl (sort_key (\<lambda>c. - getSize c) all_cells),
                 [hd (sort_key (\<lambda>c. - getSize c) all_cells)])"
    by (rule classify_equal(1)[OF ne eq])
  show "classifyCellsImproved all_cells fiber_centers sz r vol =
          (if vol = 0 \<or> rve0 sz * rve1 sz = 0 \<or> fiber_centers = [] \<or> r = 0
           then Inl ZeroDivisionError
           else Inr (tl (sort_key (\<lambda>c. - getSize c) all_cells),
                     [hd (sort_key (\<lambda>c. - getSize c) all_cells)]))"
    by (rule classify_equal(2)[OF ne eq])
  fix f :: "cell \<Rightarrow> real list option"
    and g :: "cell \<Rightarrow> (real \<times> real \<times> real) option list option"
  let ?u = "\<lambda>c :: cell. c\<lparr>getCentroid := f c, getVertices := g c\<rparr>"
  have ne': "map ?u all_cells \<noteq> []" using ne by simp
  have eq': "length (map ?u all_cells) - 1 = length (buildAllFiberCenters3D fiber_centers sz r)"
    using eq by simp
  have srt: "sort_key (\<lambda>c. - getSize c) (map ?u all_cells)
               = map ?u (sort_key (\<lambda>c. - getSize c) all_cells)"
    by (rule sort_key_map_same_key) simp
  have nes: "sort_key (\<lambda>c. - getSize c) all_cells \<noteq> []"
    using ne by (metis length_sort length_0_conv)
  show "classify_labels (map ?u all_cells) fiber_centers sz r
            = Inr (map ?u (tl (sort_key (\<lambda>c. - getSize c) all_cells)),
                   [?u (hd (sort_key (\<lambda>c. - getSize c) all_cells))])"
    unfolding classify_equal(1)[OF ne' eq'] srt
    using nes by (simp add: map_tl hd_map)
qed

text \<open>
  Claim C6, at inputs: one fibre in the middle of a 10 by 10 by 1 domain, so one mirrored
  centre.  With a large and a small region, neither of which can give a centroid, the small
  one is labelled fibre and the large one matrix; with the large region alone the count
  error is raised.
\<close>

theorem classifier_count_gate_witness:
  "[\<lparr>getSize = 1, getCentroid = None, getVertices = None\<rparr>,
    \<lparr>getSize = 99, getCentroid = None, getVertices = None\<rparr>] \<noteq> []
   \<and> length (tl (sort_key (\<lambda>c. - getSize c)
         [\<lparr>getSize = 1, getCentroid = None, getVertices = None\<rparr>,
          \<lparr>getSize = 99, getCentroid = None, getVertices = None\<rparr>]))
       = length (buildAllFiberCenters3D [(5, 5)] (10, 10, 1) 0.5)
   \<and> classifyCellsImproved
         [\<lparr>getSize = 1, getCentroid = None, getVertices = None\<rparr>,
          \<lparr>getSize = 99, getCentroid = None, getVertices = None\<rparr>] [(5, 5)] (10, 10, 1) 0.5 100
       = Inr ([\<lparr>getSize = 1, getCentroid = None, getVertices = None\<rparr>],
              [\<lparr>getSize = 99, getCentroid = None, getVertices = None\<rparr>])
   \<and> length (tl (sort_key (\<lambda>c. - getSize c)
         [\<lparr>getSize = 99, getCentroid = None, getVertices = None\<rparr>]))
       < length (buildAllFiberCenters3D [(5, 5)] (10, 10, 1) 0.5)
   \<and> classifyCellsImproved
         [\<lparr>getSize = 99, getCentroid = None, getVertices = None\<rparr>] [(5, 5)] (10, 10, 1) 0.5 100
       = Inl (CellCountAnomaly 0 1)"
proof -
  let ?small = "\<lparr>getSize = 1, getCentroid = None, getVertices = None\<rparr>"
  let ?big = "\<lparr>getSize = 99, getCentroid = None, getVertices = None\<rparr>"
  have b: "buildAllFiberCenters3D [(5, 5)] (10, 10, 1) 0.5 = [(5, 5)]"
    by (simp add: buildAllFiberCenters3D_def fiber_images_def rve0_def rve1_def)
  then have b': "buildAllFiberCenters3D [(5, 5)] (10, 10, 1) (1 / 2) = [(5, 5)]"
    by simp
  have h1: "[?small, ?big] \<noteq> []
     \<and> length (tl (sort_key (\<lambda>c. - getSize c) [?small, ?big]))
         = length (buildAllFiberCenters3D [(5, 5)] (10, 10, 1) 0.5)"
    by (simp add: b')
  have h2: "length (tl (sort_key (\<lambda>c. - getSize c) [?big]))
       < length (buildAllFiberCenters3D [(5, 5)] (10, 10, 1) 0.5)"
    by (simp add: b')
  from classifier_count_gate[where all_cells = "[?small, ?big]" and fiber_centers = "[(5, 5)]"
      and sz = "(10, 10, 1)" and r = "0.5" and vol = 100,
      THEN conjunct2, THEN mp, OF h1, THEN conjunct2, THEN conjunct1]
  have r1: "classifyCellsImproved [?small, ?big] [(5, 5)] (10, 10, 1) 0.5 100
       = Inr ([?small], [?big])"
    by (simp add: rve0_def rve1_def b')
  from classifier_count_gate[where all_cells = "[?big]" and fiber_centers = "[(5, 5)]"
      and sz = "(10, 10, 1)" and r = "0.5" and vol = 100,
      THEN conjunct1, THEN mp, OF h2]
  have r2: "classifyCellsImproved [?big] [(5, 5)] (10, 10, 1) 0.5 100
       = Inl (CellCountAnomaly 0 1)"
    by (simp add: b')
  from h1 r1 h2 r2 show ?thesis by blast
qed

end
